theory Spec2Isabelle
  imports
    Complex_Main
    "HOL-Library.Multiset"
    "HOL-Library.Product_Lexorder"
    "HOL-Library.Char_ord"
    "HOL-Library.List_Lexorder"
begin

section \<open>The health-score pipeline of app.py\<close>

text \<open>
  The script loads five tables, normalises five slider weights, joins the tables into one
  table \<open>dyn\<close> with one row per vendor, adds the column \<open>HEALTH_SCORE_DYNAMIC\<close>, keeps
  the selected vendors and sorts by that column, descending. A second table,
  \<open>finance_summary\<close>, joins Finance with Budgets.

  A table is a list of rows and a row is a record with the columns the script reads.
\<close>

subsection \<open>Cells and column arithmetic\<close>

text \<open>
  A numeric cell is a binary64 value: a finite number, one of the two infinities, or NaN,
  which is also what a join leaves where no row matched. Arithmetic on columns follows
  IEEE 754: NaN propagates, \<open>inf - inf\<close> and \<open>0 * inf\<close> are NaN, and a finite result whose
  magnitude reaches \<open>2^1024 - 2^970\<close> overflows to an infinity. What is left out is the
  rounding of finite results, which are kept as exact reals, and the sign of zero.
\<close>

type_synonym vendor_id = string

datatype cell = Fin real | PInf | NInf | NaN

datatype py_error = ZeroDivisionError

definition overflow_threshold :: real where
  "overflow_threshold = 2 ^ 1024 - 2 ^ 970"

definition to_float :: "real \<Rightarrow> cell" where
  "to_float x =
     (if overflow_threshold \<le> x then PInf
      else if x \<le> - overflow_threshold then NInf
      else Fin x)"

fun fneg :: "cell \<Rightarrow> cell" where
  "fneg (Fin x) = Fin (- x)"
| "fneg PInf = NInf"
| "fneg NInf = PInf"
| "fneg NaN = NaN"

fun fadd :: "cell \<Rightarrow> cell \<Rightarrow> cell" where
  "fadd NaN b = NaN"
| "fadd a NaN = NaN"
| "fadd (Fin x) (Fin y) = to_float (x + y)"
| "fadd PInf NInf = NaN"
| "fadd NInf PInf = NaN"
| "fadd PInf b = PInf"
| "fadd a PInf = PInf"
| "fadd NInf b = NInf"
| "fadd a NInf = NInf"

definition fsub :: "cell \<Rightarrow> cell \<Rightarrow> cell" where
  "fsub a b = fadd a (fneg b)"

text \<open>The infinity with the sign of a non-zero real, NaN for zero.\<close>

definition inf_times :: "real \<Rightarrow> cell" where
  "inf_times x = (if x = 0 then NaN else if 0 < x then PInf else NInf)"

fun fmul :: "cell \<Rightarrow> cell \<Rightarrow> cell" where
  "fmul NaN b = NaN"
| "fmul a NaN = NaN"
| "fmul (Fin x) (Fin y) = to_float (x * y)"
| "fmul (Fin x) PInf = inf_times x"
| "fmul (Fin x) NInf = inf_times (- x)"
| "fmul PInf (Fin y) = inf_times y"
| "fmul NInf (Fin y) = inf_times (- y)"
| "fmul PInf PInf = PInf"
| "fmul NInf NInf = PInf"
| "fmul PInf NInf = NInf"
| "fmul NInf PInf = NInf"

text \<open>
  Division of columns does not raise: a finite number over zero is an infinity, and
  \<open>0 / 0\<close> and \<open>inf / inf\<close> are NaN.
\<close>

fun fdiv :: "cell \<Rightarrow> cell \<Rightarrow> cell" where
  "fdiv NaN b = NaN"
| "fdiv a NaN = NaN"
| "fdiv (Fin x) (Fin y) = (if y = 0 then inf_times x else to_float (x / y))"
| "fdiv (Fin x) PInf = Fin 0"
| "fdiv (Fin x) NInf = Fin 0"
| "fdiv PInf (Fin y) = (if 0 \<le> y then PInf else NInf)"
| "fdiv NInf (Fin y) = (if 0 \<le> y then NInf else PInf)"
| "fdiv PInf b = NaN"
| "fdiv NInf b = NaN"

text \<open>The comparison \<open>a <= b\<close> of two cells, which is false when either is NaN.\<close>

fun fle :: "cell \<Rightarrow> cell \<Rightarrow> bool" where
  "fle NaN b = False"
| "fle a NaN = False"
| "fle (Fin x) (Fin y) = (x \<le> y)"
| "fle NInf b = True"
| "fle a PInf = True"
| "fle PInf b = False"
| "fle a NInf = False"

text \<open>\<open>.fillna(v)\<close> on one cell, and \<open>.clip(lo, hi)\<close>, which leaves NaN as it is.\<close>

definition fillna :: "real \<Rightarrow> cell \<Rightarrow> cell" where
  "fillna v c = (case c of NaN \<Rightarrow> Fin v | _ \<Rightarrow> c)"

definition clip :: "real \<Rightarrow> real \<Rightarrow> cell \<Rightarrow> cell" where
  "clip lo hi c =
     (case c of
        Fin x \<Rightarrow> Fin (max lo (min hi x))
      | PInf \<Rightarrow> Fin (max lo hi)
      | NInf \<Rightarrow> Fin lo
      | NaN \<Rightarrow> NaN)"

text \<open>
  The mean of a group skips NaN: the sum of the other values over their number, and NaN
  for a group with none left.
\<close>

definition mean :: "cell list \<Rightarrow> cell" where
  "mean cs =
     (let xs = filter (\<lambda>c. c \<noteq> NaN) cs
      in if xs = [] then NaN else fdiv (foldl fadd (Fin 0) xs) (Fin (real (length xs))))"

subsection \<open>The five input tables\<close>

record identity_row =
  VENDOR_ID :: vendor_id
  MATCH_RATE :: cell
  OVERLAP :: cell
  AVG_LATENCY_HOURS :: cell

record delivery_row =
  d_VENDOR_ID :: vendor_id
  d_DT :: string
  d_CPM :: cell
  d_VIEWABILITY :: cell
  d_CTR :: cell

record finance_row =
  f_MONTH :: string
  f_VENDOR_ID :: vendor_id
  f_INVOICED_USD :: cell
  f_DISPUTE_RATE :: cell

record budget_row =
  b_MONTH :: string
  b_VENDOR_ID :: vendor_id
  b_BUDGET_ALLOCATED_USD :: cell

text \<open>
  Of the Health table the script reads the column \<open>VENDOR_ID\<close> only
  (\<open>health[["VENDOR_ID"]]\<close>), so Health is the list of its vendor ids, in row order.
\<close>

type_synonym health_table = "vendor_id list"

subsection \<open>Joins and group means\<close>

text \<open>
  \<open>left.merge(right, on=key, how="left")\<close>: every left row, in order, once for each right
  row with the same key, or once with nothing on the right when no right row matches.
  \<open>how="right"\<close> is the same join with the sides exchanged.
\<close>

definition merge_left ::
  "('l \<Rightarrow> 'k) \<Rightarrow> ('r \<Rightarrow> 'k) \<Rightarrow> 'l list \<Rightarrow> 'r list \<Rightarrow> ('l \<times> 'r option) list" where
  "merge_left lkey rkey left right =
     concat (map (\<lambda>l. case filter (\<lambda>r. rkey r = lkey l) right of
                         [] \<Rightarrow> [(l, None)]
                       | ms \<Rightarrow> map (\<lambda>r. (l, Some r)) ms) left)"

definition merge_right ::
  "('l \<Rightarrow> 'k) \<Rightarrow> ('r \<Rightarrow> 'k) \<Rightarrow> 'l list \<Rightarrow> 'r list \<Rightarrow> ('l option \<times> 'r) list" where
  "merge_right lkey rkey left right =
     map (\<lambda>(r, l). (l, r)) (merge_left rkey lkey right left)"

text \<open>The cell of a column in a merged row: NaN where no row matched.\<close>

definition joined :: "'r option \<Rightarrow> ('r \<Rightarrow> cell) \<Rightarrow> cell" where
  "joined m col = (case m of None \<Rightarrow> NaN | Some r \<Rightarrow> col r)"

text \<open>
  \<open>rows.groupby(key, as_index=False)[col].mean()\<close>: one row per distinct key, keys in
  ascending order, with the mean of the column over the rows of that key.
\<close>

definition groupby_mean ::
  "('r \<Rightarrow> vendor_id) \<Rightarrow> ('r \<Rightarrow> cell) \<Rightarrow> 'r list \<Rightarrow> (vendor_id \<times> cell) list" where
  "groupby_mean key col rows =
     map (\<lambda>k. (k, mean (map col (filter (\<lambda>r. key r = k) rows))))
         (sort (remdups (map key rows)))"

subsection \<open>Weights\<close>

text \<open>
  \<open>weights = [w/sum(weights) for w in weights]\<close>. The sliders give finite numbers, here
  reals. Python's float division raises ZeroDivisionError on a zero divisor; the
  comprehension divides once per element, so an empty list divides nothing.
\<close>

definition normalize_weights :: "real list \<Rightarrow> py_error + real list" where
  "normalize_weights weights =
     (if weights \<noteq> [] \<and> sum_list weights = 0 then Inl ZeroDivisionError
      else Inr (map (\<lambda>w. w / sum_list weights) weights))"

definition slider_weights :: "real \<Rightarrow> real \<Rightarrow> real \<Rightarrow> real \<Rightarrow> real \<Rightarrow> py_error + real list" where
  "slider_weights w_match w_overlap w_cpm w_view w_disputes =
     normalize_weights [w_match, w_overlap, w_cpm, w_view, w_disputes]"

subsection \<open>The joined table dyn\<close>

record dyn_dispute_row = identity_row +
  DISPUTE_RATE :: cell

record dyn_cpm_row = dyn_dispute_row +
  CPM :: cell

record dyn_row = dyn_cpm_row +
  VIEWABILITY :: cell

record scored_row = dyn_row +
  HEALTH_SCORE_DYNAMIC :: cell

text \<open>\<open>.fillna(0)\<close> fills every numeric column the table has at that point.\<close>

definition fillna_identity :: "real \<Rightarrow> 'a identity_row_scheme \<Rightarrow> 'a identity_row_scheme" where
  "fillna_identity v r =
     r\<lparr>MATCH_RATE := fillna v (MATCH_RATE r),
       OVERLAP := fillna v (OVERLAP r),
       AVG_LATENCY_HOURS := fillna v (AVG_LATENCY_HOURS r)\<rparr>"

definition fillna_dispute :: "real \<Rightarrow> 'a dyn_dispute_row_scheme \<Rightarrow> 'a dyn_dispute_row_scheme" where
  "fillna_dispute v r = (fillna_identity v r)\<lparr>DISPUTE_RATE := fillna v (DISPUTE_RATE r)\<rparr>"

definition fillna_cpm :: "real \<Rightarrow> 'a dyn_cpm_row_scheme \<Rightarrow> 'a dyn_cpm_row_scheme" where
  "fillna_cpm v r = (fillna_dispute v r)\<lparr>CPM := fillna v (CPM r)\<rparr>"

definition fillna_dyn :: "real \<Rightarrow> 'a dyn_row_scheme \<Rightarrow> 'a dyn_row_scheme" where
  "fillna_dyn v r = (fillna_cpm v r)\<lparr>VIEWABILITY := fillna v (VIEWABILITY r)\<rparr>"

text \<open>\<open>dyn = identity.merge(health[["VENDOR_ID"]], on="VENDOR_ID", how="right").fillna(0)\<close>\<close>

definition dyn_identity :: "identity_row list \<Rightarrow> health_table \<Rightarrow> identity_row list" where
  "dyn_identity identity health =
     map (\<lambda>(i, h). fillna_identity 0
            \<lparr>VENDOR_ID = h,
             MATCH_RATE = joined i MATCH_RATE,
             OVERLAP = joined i OVERLAP,
             AVG_LATENCY_HOURS = joined i AVG_LATENCY_HOURS\<rparr>)
         (merge_right VENDOR_ID (\<lambda>h. h) identity health)"

text \<open>The three further merges, each with a per-vendor mean, each followed by \<open>.fillna(0)\<close>.\<close>

definition dyn_dispute ::
  "identity_row list \<Rightarrow> finance_row list \<Rightarrow> dyn_dispute_row list" where
  "dyn_dispute dyn finance =
     map (\<lambda>(l, g). fillna_dispute 0
            (identity_row.extend l (dyn_dispute_row.fields (joined g snd))))
         (merge_left VENDOR_ID fst dyn (groupby_mean f_VENDOR_ID f_DISPUTE_RATE finance))"

definition dyn_cpm ::
  "dyn_dispute_row list \<Rightarrow> delivery_row list \<Rightarrow> dyn_cpm_row list" where
  "dyn_cpm dyn delivery =
     map (\<lambda>(l, g). fillna_cpm 0
            (dyn_dispute_row.extend l (dyn_cpm_row.fields (joined g snd))))
         (merge_left VENDOR_ID fst dyn (groupby_mean d_VENDOR_ID d_CPM delivery))"

definition dyn_viewability ::
  "dyn_cpm_row list \<Rightarrow> delivery_row list \<Rightarrow> dyn_row list" where
  "dyn_viewability dyn delivery =
     map (\<lambda>(l, g). fillna_dyn 0
            (dyn_cpm_row.extend l (dyn_row.fields (joined g snd))))
         (merge_left VENDOR_ID fst dyn (groupby_mean d_VENDOR_ID d_VIEWABILITY delivery))"

definition dyn_table ::
  "identity_row list \<Rightarrow> health_table \<Rightarrow> finance_row list \<Rightarrow> delivery_row list \<Rightarrow> dyn_row list" where
  "dyn_table identity health finance delivery =
     dyn_viewability (dyn_cpm (dyn_dispute (dyn_identity identity health) finance) delivery)
       delivery"

subsection \<open>The score column\<close>

text \<open>The three re-scaled columns inside the formula of \<open>HEALTH_SCORE_DYNAMIC\<close>.\<close>

definition cpm_term :: "'a dyn_row_scheme \<Rightarrow> cell" where
  "cpm_term r = fsub (Fin 1) (fdiv (CPM r) (Fin 15))"

definition viewability_term :: "'a dyn_row_scheme \<Rightarrow> cell" where
  "viewability_term r = fdiv (fsub (VIEWABILITY r) (Fin 0.5)) (Fin 0.5)"

definition dispute_term :: "'a dyn_row_scheme \<Rightarrow> cell" where
  "dispute_term r = fsub (Fin 1) (DISPUTE_RATE r)"

definition weighted_sum :: "real list \<Rightarrow> 'a dyn_row_scheme \<Rightarrow> cell" where
  "weighted_sum weights r =
     fadd (fadd (fadd (fadd
       (fmul (Fin (weights ! 0)) (MATCH_RATE r))
       (fmul (Fin (weights ! 1)) (OVERLAP r)))
       (fmul (Fin (weights ! 2)) (cpm_term r)))
       (fmul (Fin (weights ! 3)) (viewability_term r)))
       (fmul (Fin (weights ! 4)) (dispute_term r))"

definition health_score_dynamic :: "real list \<Rightarrow> 'a dyn_row_scheme \<Rightarrow> cell" where
  "health_score_dynamic weights r = fmul (clip 0 1 (weighted_sum weights r)) (Fin 100)"

definition add_score :: "real list \<Rightarrow> dyn_row list \<Rightarrow> scored_row list" where
  "add_score weights dyn =
     map (\<lambda>r. dyn_row.extend r (scored_row.fields (health_score_dynamic weights r))) dyn"

subsection \<open>Filter and sort\<close>

text \<open>
  \<open>dyn[dyn["VENDOR_ID"].isin(sel_vendors)].sort_values("HEALTH_SCORE_DYNAMIC",
  ascending=False)\<close>. The sort puts the rows in descending order of the score and the rows
  with a NaN score last. \<open>sort_rank\<close> ranks NaN below every other cell, so this is the
  reverse of an ascending sort on the rank. The sort below keeps rows of equal score in
  their order; pandas sorts with its default \<open>kind\<close>, for which it promises no order among
  equal keys, and no statement of this development depends on that order.
\<close>

definition isin :: "vendor_id list \<Rightarrow> 'a identity_row_scheme \<Rightarrow> bool" where
  "isin sel_vendors r = (VENDOR_ID r \<in> set sel_vendors)"

fun sort_rank :: "cell \<Rightarrow> nat \<times> real" where
  "sort_rank NaN = (0, 0)"
| "sort_rank NInf = (1, 0)"
| "sort_rank (Fin x) = (2, x)"
| "sort_rank PInf = (3, 0)"

definition sort_values_desc :: "scored_row list \<Rightarrow> scored_row list" where
  "sort_values_desc rows =
     rev (sort_key (\<lambda>r. sort_rank (HEALTH_SCORE_DYNAMIC r)) (rev rows))"

definition ranked ::
  "vendor_id list \<Rightarrow> real list \<Rightarrow> identity_row list \<Rightarrow> health_table \<Rightarrow>
   finance_row list \<Rightarrow> delivery_row list \<Rightarrow> scored_row list" where
  "ranked sel_vendors weights identity health finance delivery =
     sort_values_desc
       (filter (isin sel_vendors)
          (add_score weights (dyn_table identity health finance delivery)))"

text \<open>
  The script from the sliders to the ranking: the weights are normalised first, so a
  fault there ends the run before any table is built.
\<close>

definition pipeline ::
  "real \<Rightarrow> real \<Rightarrow> real \<Rightarrow> real \<Rightarrow> real \<Rightarrow> vendor_id list \<Rightarrow> identity_row list \<Rightarrow>
   health_table \<Rightarrow> finance_row list \<Rightarrow> delivery_row list \<Rightarrow> py_error + scored_row list" where
  "pipeline w_match w_overlap w_cpm w_view w_disputes sel_vendors identity health finance
     delivery =
     (case slider_weights w_match w_overlap w_cpm w_view w_disputes of
        Inl e \<Rightarrow> Inl e
      | Inr weights \<Rightarrow> Inr (ranked sel_vendors weights identity health finance delivery))"

subsection \<open>The finance-variance table\<close>

record finance_summary_row = finance_row +
  BUDGET_ALLOCATED_USD :: cell
  VARIANCE_USD :: cell

text \<open>
  \<open>finance_summary = finance.merge(budgets, on=["MONTH","VENDOR_ID"], how="left")\<close>, then
  \<open>VARIANCE_USD = INVOICED_USD - BUDGET_ALLOCATED_USD\<close>. No \<open>fillna\<close> follows this merge.
\<close>

definition finance_summary ::
  "finance_row list \<Rightarrow> budget_row list \<Rightarrow> finance_summary_row list" where
  "finance_summary finance budgets =
     map (\<lambda>(f, b).
            let budget = joined b b_BUDGET_ALLOCATED_USD
            in finance_row.extend f
                 (finance_summary_row.fields budget (fsub (f_INVOICED_USD f) budget)))
         (merge_left (\<lambda>f. (f_MONTH f, f_VENDOR_ID f)) (\<lambda>b. (b_MONTH b, b_VENDOR_ID b))
            finance budgets)"

subsection \<open>Auxiliary definitions\<close>

text \<open>
  The cell that a left merge with \<open>groupby_mean key col rows\<close> puts in the row of key \<open>k\<close>:
  the group's mean when the key has a group, NaN otherwise.
\<close>

definition group_mean :: "('r \<Rightarrow> vendor_id) \<Rightarrow> ('r \<Rightarrow> cell) \<Rightarrow> 'r list \<Rightarrow> vendor_id \<Rightarrow> cell" where
  "group_mean key col rows k =
     (if k \<in> set (map key rows) then mean (map col (filter (\<lambda>r. key r = k) rows)) else NaN)"

text \<open>The row of \<open>dyn\<close> that the three later merges make of a row of the first merge.\<close>

definition dyn_of :: "finance_row list \<Rightarrow> delivery_row list \<Rightarrow> identity_row \<Rightarrow> dyn_row" where
  "dyn_of finance delivery l =
     \<lparr>VENDOR_ID = VENDOR_ID l,
      MATCH_RATE = fillna 0 (MATCH_RATE l),
      OVERLAP = fillna 0 (OVERLAP l),
      AVG_LATENCY_HOURS = fillna 0 (AVG_LATENCY_HOURS l),
      DISPUTE_RATE = fillna 0 (group_mean f_VENDOR_ID f_DISPUTE_RATE finance (VENDOR_ID l)),
      CPM = fillna 0 (group_mean d_VENDOR_ID d_CPM delivery (VENDOR_ID l)),
      VIEWABILITY = fillna 0 (group_mean d_VENDOR_ID d_VIEWABILITY delivery (VENDOR_ID l))\<rparr>"

text \<open>
  A magnitude below which the formula of the score cannot overflow, for cells and weights
  alike, and the exact value of the weighted sum for finite cells.
\<close>

definition cell_bound :: real where
  "cell_bound = 10 ^ 150"

definition bounded_cell :: "cell \<Rightarrow> bool" where
  "bounded_cell c = (case c of Fin x \<Rightarrow> \<bar>x\<bar> \<le> cell_bound | _ \<Rightarrow> False)"

definition exact_sum :: "real list \<Rightarrow> real \<Rightarrow> real \<Rightarrow> real \<Rightarrow> real \<Rightarrow> real \<Rightarrow> real" where
  "exact_sum weights m ov c v d =
     weights ! 0 * m + weights ! 1 * ov + weights ! 2 * (1 - c / 15)
       + weights ! 3 * ((v - 0.5) / 0.5) + weights ! 4 * (1 - d)"

subsection \<open>Example tables\<close>

text \<open>
  One vendor, \<open>V1\<close>, with a row in Identity, Delivery and Finance; the default slider
  weights; the row of \<open>dyn\<close> that belongs to \<open>V1\<close>; and a budget for another month.
\<close>

definition example_identity :: "identity_row list" where
  "example_identity =
     [\<lparr>VENDOR_ID = ''V1'', MATCH_RATE = Fin 0.8, OVERLAP = Fin 0.5,
       AVG_LATENCY_HOURS = Fin 2\<rparr>]"

definition example_delivery :: "delivery_row list" where
  "example_delivery =
     [\<lparr>d_VENDOR_ID = ''V1'', d_DT = ''2024-01-01'', d_CPM = Fin 10,
       d_VIEWABILITY = Fin 0.7, d_CTR = Fin 0.01\<rparr>]"

definition example_finance :: "finance_row list" where
  "example_finance =
     [\<lparr>f_MONTH = ''2024-01'', f_VENDOR_ID = ''V1'', f_INVOICED_USD = Fin 1200,
       f_DISPUTE_RATE = Fin 0.05\<rparr>]"

definition example_budgets :: "budget_row list" where
  "example_budgets =
     [\<lparr>b_MONTH = ''2024-02'', b_VENDOR_ID = ''V1'', b_BUDGET_ALLOCATED_USD = Fin 1000\<rparr>]"

definition example_weights :: "real list" where
  "example_weights = [0.30, 0.15, 0.25, 0.20, 0.10]"

definition example_vendor :: dyn_row where
  "example_vendor =
     \<lparr>VENDOR_ID = ''V1'', MATCH_RATE = Fin 0.8, OVERLAP = Fin 0.5,
      AVG_LATENCY_HOURS = Fin 2, DISPUTE_RATE = Fin 0.05, CPM = Fin 10,
      VIEWABILITY = Fin 0.7\<rparr>"

text \<open>
  The row of \<open>dyn\<close> of a vendor \<open>V2\<close> that only Health knows: every cell filled with 0.
\<close>

definition absent_vendor :: dyn_row where
  "absent_vendor =
     \<lparr>VENDOR_ID = ''V2'', MATCH_RATE = Fin 0, OVERLAP = Fin 0,
      AVG_LATENCY_HOURS = Fin 0, DISPUTE_RATE = Fin 0, CPM = Fin 0,
      VIEWABILITY = Fin 0\<rparr>"

text \<open>
  A delivery table whose only row has an infinite CPM, as the reader of the file makes of
  the text \<open>1e309\<close> or \<open>inf\<close>; the slider weights with the CPM weight at 0, which
  normalise to themselves; and the row of \<open>dyn\<close> that \<open>V1\<close> then has.
\<close>

definition infinite_cpm_delivery :: "delivery_row list" where
  "infinite_cpm_delivery =
     [\<lparr>d_VENDOR_ID = ''V1'', d_DT = ''2024-01-01'', d_CPM = PInf,
       d_VIEWABILITY = Fin 0.7, d_CTR = Fin 0.01\<rparr>]"

definition zero_cpm_weights :: "real list" where
  "zero_cpm_weights = [0.4, 0.2, 0, 0.1, 0.3]"

definition infinite_cpm_vendor :: dyn_row where
  "infinite_cpm_vendor =
     \<lparr>VENDOR_ID = ''V1'', MATCH_RATE = Fin 0.8, OVERLAP = Fin 0.5,
      AVG_LATENCY_HOURS = Fin 2, DISPUTE_RATE = Fin 0.05, CPM = PInf,
      VIEWABILITY = Fin 0.7\<rparr>"

section \<open>Properties\<close>

subsection \<open>Cells\<close>

lemma fillna_simps:
  "fillna v NaN = Fin v" "fillna v (Fin x) = Fin x" "fillna v PInf = PInf"
  "fillna v NInf = NInf"
  by (simp_all add: fillna_def)

lemma fillna_idem: "fillna v (fillna v c) = fillna v c"
  by (cases c) (simp_all add: fillna_def)

lemma fillna_not_NaN: "fillna v c \<noteq> NaN"
  by (cases c) (simp_all add: fillna_def)

lemma joined_simps: "joined None col = NaN" "joined (Some r) col = col r"
  by (simp_all add: joined_def)

lemma fsub_NaN: "fsub a NaN = NaN"
  by (cases a) (simp_all add: fsub_def)

text \<open>Overflow: the threshold is far above every number the score works with.\<close>

lemma threshold_large: "1000 < overflow_threshold"
  by (simp add: overflow_threshold_def)

lemma cell_bound_ge_1: "1 \<le> cell_bound"
  by (simp add: cell_bound_def)

lemma threshold_bound: "20 * (cell_bound * cell_bound) < overflow_threshold"
  by (simp add: cell_bound_def overflow_threshold_def)

lemma to_float_Fin: "\<bar>x\<bar> < overflow_threshold \<Longrightarrow> to_float x = Fin x"
  by (auto simp add: to_float_def)

lemma to_float_small: "\<bar>x\<bar> \<le> 1000 \<Longrightarrow> to_float x = Fin x"
  using threshold_large by (intro to_float_Fin) linarith

lemma to_float_cases:
  "(to_float x = Fin x \<and> \<bar>x\<bar> < overflow_threshold)
   \<or> (to_float x = PInf \<and> overflow_threshold \<le> x)
   \<or> (to_float x = NInf \<and> x \<le> - overflow_threshold)"
  using threshold_large by (auto simp add: to_float_def)

lemmas cell_eval =
  fsub_def to_float_small clip_def joined_def fillna_def inf_times_def

text \<open>
  The three re-scaled columns, for every cell that is not NaN and not negative: the CPM
  and the dispute term are at most 1, the viewability term is at least \<open>-1\<close>.
\<close>

lemma cpm_term_le_1:
  fixes r :: "'a dyn_row_scheme"
  assumes "fle (Fin 0) (CPM r)"
  shows "fle (cpm_term r) (Fin 1)"
proof (cases "CPM r")
  case (Fin x)
  with assms have x: "0 \<le> x" by simp
  show ?thesis
    using x threshold_large to_float_cases [of "x / 15"] to_float_cases [of "1 + - (x / 15)"]
    by (auto simp add: cpm_term_def Fin fsub_def)
qed (insert assms, simp_all add: cpm_term_def fsub_def)

lemma dispute_term_le_1:
  fixes r :: "'a dyn_row_scheme"
  assumes "fle (Fin 0) (DISPUTE_RATE r)"
  shows "fle (dispute_term r) (Fin 1)"
proof (cases "DISPUTE_RATE r")
  case (Fin x)
  with assms have x: "0 \<le> x" by simp
  show ?thesis
    using x threshold_large to_float_cases [of "1 + - x"]
    by (auto simp add: dispute_term_def Fin fsub_def)
qed (insert assms, simp_all add: dispute_term_def fsub_def)

lemma viewability_term_ge_m1:
  fixes r :: "'a dyn_row_scheme"
  assumes "fle (Fin 0) (VIEWABILITY r)"
  shows "fle (Fin (- 1)) (viewability_term r)"
proof (cases "VIEWABILITY r")
  case (Fin x)
  with assms have x: "0 \<le> x" by simp
  show ?thesis
    using x threshold_large to_float_cases [of "x + - (1 / 2)"]
      to_float_cases [of "(x + - (1 / 2)) / (1 / 2)"]
    by (auto simp add: viewability_term_def Fin fsub_def)
qed (insert assms, simp_all add: viewability_term_def fsub_def)

subsection \<open>Weight normalisation\<close>

lemma sum_list_divide: "sum_list (map (\<lambda>w. w / s) ws) = sum_list ws / (s::real)"
  by (induction ws) (simp_all add: add_divide_distrib)

lemma normalize_positive:
  assumes "sum_list weights \<noteq> 0"
  shows "normalize_weights weights = Inr (map (\<lambda>w. w / sum_list weights) weights)"
    and "sum_list (map (\<lambda>w. w / sum_list weights) weights) = 1"
  using assms by (simp_all add: normalize_weights_def sum_list_divide)

text \<open>
  C1, as the code behaves: with all five raw weights 0 the normalisation divides by the
  sum 0, so it ends with ZeroDivisionError and the run with it, whatever the tables hold:
  no ranking and no score is produced. The script has no fallback for this case.
\<close>

theorem zero_weights_raise:
  "slider_weights 0 0 0 0 0 = Inl ZeroDivisionError
   \<and> pipeline 0 0 0 0 0 sel_vendors identity health finance delivery = Inl ZeroDivisionError"
  by (simp add: pipeline_def slider_weights_def normalize_weights_def)

text \<open>
  C6: for five raw weights, each in \<open>[0, 1]\<close>, with a strictly positive sum, the
  normalisation returns without a fault; what it returns is the list of the five raw
  weights, each divided by their sum, and these five quotients sum to 1.
\<close>

theorem normalized_weights_sum_to_one:
  assumes "0 \<le> w_match" "w_match \<le> 1" "0 \<le> w_overlap" "w_overlap \<le> 1"
    "0 \<le> w_cpm" "w_cpm \<le> 1" "0 \<le> w_view" "w_view \<le> 1"
    "0 \<le> w_disputes" "w_disputes \<le> 1"
    "0 < w_match + w_overlap + w_cpm + w_view + w_disputes"
  shows "slider_weights w_match w_overlap w_cpm w_view w_disputes
           = Inr [w_match / (w_match + w_overlap + w_cpm + w_view + w_disputes),
                  w_overlap / (w_match + w_overlap + w_cpm + w_view + w_disputes),
                  w_cpm / (w_match + w_overlap + w_cpm + w_view + w_disputes),
                  w_view / (w_match + w_overlap + w_cpm + w_view + w_disputes),
                  w_disputes / (w_match + w_overlap + w_cpm + w_view + w_disputes)]
    \<and> w_match / (w_match + w_overlap + w_cpm + w_view + w_disputes)
      + w_overlap / (w_match + w_overlap + w_cpm + w_view + w_disputes)
      + w_cpm / (w_match + w_overlap + w_cpm + w_view + w_disputes)
      + w_view / (w_match + w_overlap + w_cpm + w_view + w_disputes)
      + w_disputes / (w_match + w_overlap + w_cpm + w_view + w_disputes) = 1"
proof -
  let ?raw = "[w_match, w_overlap, w_cpm, w_view, w_disputes]"
  have s: "sum_list ?raw = w_match + w_overlap + w_cpm + w_view + w_disputes"
    by simp
  have nz: "sum_list ?raw \<noteq> 0" using assms(11) by simp
  show ?thesis
    using normalize_positive [OF nz] unfolding slider_weights_def s
    by (simp add: add.assoc)
qed

theorem normalized_weights_sum_to_one_witness:
  "(0::real) \<le> 0.5 \<and> (0.5::real) \<le> 1 \<and> (0::real) \<le> 0.25 \<and> (0.25::real) \<le> 1
   \<and> (0::real) < 0.5 + 0.5 + 0.5 + 0.25 + 0.25
   \<and> slider_weights 0.5 0.5 0.5 0.25 0.25 = Inr [0.25, 0.25, 0.25, 0.125, 0.125]
   \<and> (0.25::real) + 0.25 + 0.25 + 0.125 + 0.125 = 1"
  using normalized_weights_sum_to_one [of "0.5" "0.5" "0.5" "0.25" "0.25"] by simp

subsection \<open>The joins\<close>

text \<open>
  The table of group means has one row per key, so a left merge with it keeps every left
  row exactly once and is a lookup of the row's key.
\<close>

lemma filter_key_distinct:
  "distinct ks \<Longrightarrow>
   filter (\<lambda>r. fst r = k) (map (\<lambda>k. (k, F k)) ks) = (if k \<in> set ks then [(k, F k)] else [])"
  by (induction ks) auto

lemma merge_left_groupby_mean:
  "merge_left lkey fst left (groupby_mean key col rows) =
     map (\<lambda>l. (l, if lkey l \<in> set (map key rows)
                   then Some (lkey l, mean (map col (filter (\<lambda>r. key r = lkey l) rows)))
                   else None)) left"
proof -
  have d: "distinct (sort (remdups (map key rows)))" by simp
  show ?thesis
    unfolding merge_left_def groupby_mean_def filter_key_distinct [OF d]
    by (induction left) simp_all
qed

lemma group_mean_absent: "k \<notin> set (map key rows) \<Longrightarrow> group_mean key col rows k = NaN"
  by (simp add: group_mean_def)

lemma dyn_dispute_map:
  "dyn_dispute dyn finance =
     map (\<lambda>l. fillna_dispute 0 (identity_row.extend l
            (dyn_dispute_row.fields
               (group_mean f_VENDOR_ID f_DISPUTE_RATE finance (VENDOR_ID l))))) dyn"
  unfolding dyn_dispute_def merge_left_groupby_mean
  by (simp add: group_mean_def joined_simps)

lemma dyn_cpm_map:
  "dyn_cpm dyn delivery =
     map (\<lambda>l. fillna_cpm 0 (dyn_dispute_row.extend l
            (dyn_cpm_row.fields (group_mean d_VENDOR_ID d_CPM delivery (VENDOR_ID l))))) dyn"
  unfolding dyn_cpm_def merge_left_groupby_mean
  by (simp add: group_mean_def joined_simps)

lemma dyn_viewability_map:
  "dyn_viewability dyn delivery =
     map (\<lambda>l. fillna_dyn 0 (dyn_cpm_row.extend l
            (dyn_row.fields (group_mean d_VENDOR_ID d_VIEWABILITY delivery (VENDOR_ID l))))) dyn"
  unfolding dyn_viewability_def merge_left_groupby_mean
  by (simp add: group_mean_def joined_simps)

lemma dyn_table_map:
  "dyn_table identity health finance delivery =
     map (dyn_of finance delivery) (dyn_identity identity health)"
  unfolding dyn_table_def dyn_viewability_map dyn_cpm_map dyn_dispute_map
  by (simp add: dyn_of_def fillna_dyn_def fillna_cpm_def fillna_dispute_def fillna_identity_def
      identity_row.defs dyn_dispute_row.defs dyn_cpm_row.defs dyn_row.defs fillna_idem)

text \<open>A left merge keeps every left row and adds none: the right join keeps Health.\<close>

lemma merge_left_fst: "set (map fst (merge_left lkey rkey left right)) = set left"
  unfolding merge_left_def by (induction left) (auto split: list.splits)

lemma dyn_identity_vendors: "set (map VENDOR_ID (dyn_identity identity health)) = set health"
proof -
  have "map VENDOR_ID (dyn_identity identity health)
          = map fst (merge_left (\<lambda>h. h) VENDOR_ID health identity)"
    by (simp add: dyn_identity_def merge_right_def fillna_identity_def o_def case_prod_unfold)
  then show ?thesis by (simp only: merge_left_fst)
qed

lemma dyn_table_vendors:
  "set (map VENDOR_ID (dyn_table identity health finance delivery)) = set health"
proof -
  have "map VENDOR_ID (dyn_table identity health finance delivery)
          = map VENDOR_ID (dyn_identity identity health)"
    by (simp add: dyn_table_map dyn_of_def o_def)
  then show ?thesis by (simp only: dyn_identity_vendors)
qed

lemma dyn_table_vendor_row:
  assumes "v \<in> set health"
  shows "\<exists>r \<in> set (dyn_table identity health finance delivery). VENDOR_ID r = v"
proof -
  have "v \<in> set (map VENDOR_ID (dyn_table identity health finance delivery))"
    using assms by (simp only: dyn_table_vendors)
  then show ?thesis by auto
qed

text \<open>No cell of \<open>dyn\<close> is NaN, and the three means are the looked-up ones.\<close>

lemma dyn_table_rows:
  assumes "r \<in> set (dyn_table identity health finance delivery)"
  shows "VENDOR_ID r \<in> set health
    \<and> MATCH_RATE r \<noteq> NaN \<and> OVERLAP r \<noteq> NaN
    \<and> DISPUTE_RATE r = fillna 0 (group_mean f_VENDOR_ID f_DISPUTE_RATE finance (VENDOR_ID r))
    \<and> CPM r = fillna 0 (group_mean d_VENDOR_ID d_CPM delivery (VENDOR_ID r))
    \<and> VIEWABILITY r = fillna 0 (group_mean d_VENDOR_ID d_VIEWABILITY delivery (VENDOR_ID r))"
proof -
  from assms obtain l where l: "l \<in> set (dyn_identity identity health)"
    and r: "r = dyn_of finance delivery l"
    by (auto simp add: dyn_table_map)
  have "VENDOR_ID l \<in> set (map VENDOR_ID (dyn_identity identity health))"
    using l by simp
  then have "VENDOR_ID l \<in> set health"
    by (simp only: dyn_identity_vendors)
  then show ?thesis
    by (simp add: r dyn_of_def fillna_not_NaN)
qed

subsection \<open>The example tables, evaluated\<close>

lemmas table_eval =
  dyn_table_map dyn_identity_def merge_right_def merge_left_def dyn_of_def
  group_mean_def mean_def fillna_identity_def example_identity_def example_finance_def
  example_delivery_def infinite_cpm_delivery_def

lemmas score_eval =
  health_score_dynamic_def weighted_sum_def cpm_term_def viewability_term_def
  dispute_term_def example_weights_def zero_cpm_weights_def

lemma example_dyn:
  "dyn_table example_identity [''V1''] example_finance example_delivery = [example_vendor]"
  by (simp add: dyn_table_map dyn_identity_def merge_right_def merge_left_def dyn_of_def
      group_mean_def mean_def fillna_identity_def example_identity_def example_finance_def
      example_delivery_def example_vendor_def cell_eval)

lemma example_dyn_two:
  "dyn_table example_identity [''V2'', ''V1''] example_finance example_delivery
     = [absent_vendor, example_vendor]"
  by (simp add: table_eval example_vendor_def absent_vendor_def cell_eval)

lemma infinite_dyn_two:
  "dyn_table example_identity [''V2'', ''V1''] example_finance infinite_cpm_delivery
     = [absent_vendor, infinite_cpm_vendor]"
  by (simp add: table_eval infinite_cpm_vendor_def absent_vendor_def cell_eval)

lemma example_score: "health_score_dynamic example_weights example_vendor = Fin (172 / 3)"
  by (simp add: health_score_dynamic_def weighted_sum_def example_weights_def
      example_vendor_def cpm_term_def viewability_term_def dispute_term_def cell_eval)

lemma absent_score: "health_score_dynamic example_weights absent_vendor = Fin 15"
  by (simp add: score_eval absent_vendor_def cell_eval)

lemma absent_score_zero_cpm: "health_score_dynamic zero_cpm_weights absent_vendor = Fin 20"
  by (simp add: score_eval absent_vendor_def cell_eval)

lemma infinite_score: "health_score_dynamic zero_cpm_weights infinite_cpm_vendor = NaN"
  by (simp add: score_eval infinite_cpm_vendor_def cell_eval)

lemma vendor_ids:
  "VENDOR_ID example_vendor = ''V1''" "VENDOR_ID absent_vendor = ''V2''"
  "VENDOR_ID infinite_cpm_vendor = ''V1''"
  by (simp_all add: example_vendor_def absent_vendor_def infinite_cpm_vendor_def)

subsection \<open>The score\<close>

text \<open>
  The score is NaN exactly when the weighted sum is, and a number in \<open>[0, 100]\<close>
  otherwise: the clip sends the infinities to 1 and 0.
\<close>

lemma clip01_cases:
  "clip 0 1 c = NaN \<and> c = NaN \<or> (\<exists>y. clip 0 1 c = Fin y \<and> 0 \<le> y \<and> y \<le> 1 \<and> c \<noteq> NaN)"
  by (cases c) (simp_all add: clip_def)

lemma score_NaN_or_range:
  "(health_score_dynamic weights r = NaN \<and> weighted_sum weights r = NaN)
   \<or> (\<exists>s. health_score_dynamic weights r = Fin s \<and> 0 \<le> s \<and> s \<le> 100
         \<and> weighted_sum weights r \<noteq> NaN)"
proof -
  from clip01_cases [of "weighted_sum weights r"] show ?thesis
  proof
    assume "clip 0 1 (weighted_sum weights r) = NaN \<and> weighted_sum weights r = NaN"
    then show ?thesis by (simp add: health_score_dynamic_def clip_def)
  next
    assume "\<exists>y. clip 0 1 (weighted_sum weights r) = Fin y \<and> 0 \<le> y \<and> y \<le> 1
               \<and> weighted_sum weights r \<noteq> NaN"
    then obtain y where y: "clip 0 1 (weighted_sum weights r) = Fin y" "0 \<le> y" "y \<le> 1"
      and n: "weighted_sum weights r \<noteq> NaN"
      by blast
    have "to_float (y * 100) = Fin (y * 100)"
      using y(2,3) by (intro to_float_small) simp
    then show ?thesis
      using y n by (simp add: health_score_dynamic_def)
  qed
qed

text \<open>
  For weights and cells of magnitude at most \<open>cell_bound\<close> no step of the formula
  overflows, and the weighted sum is the exact one.
\<close>

lemma abs_mult_le: "\<bar>w\<bar> \<le> a \<Longrightarrow> \<bar>x\<bar> \<le> b \<Longrightarrow> \<bar>w * x\<bar> \<le> a * (b::real)"
  by (simp add: abs_mult mult_mono)

lemma fmul_bounded:
  assumes "\<bar>w\<bar> \<le> cell_bound" and "\<bar>x\<bar> \<le> 2 * cell_bound + 2"
  shows "fmul (Fin w) (Fin x) = Fin (w * x) \<and> \<bar>w * x\<bar> \<le> 4 * (cell_bound * cell_bound)"
proof -
  have "\<bar>w * x\<bar> \<le> cell_bound * (2 * cell_bound + 2)"
    using assms by (rule abs_mult_le)
  also have "\<dots> \<le> 4 * (cell_bound * cell_bound)"
    using cell_bound_ge_1 by (simp add: algebra_simps mult_le_cancel_left1 mult_le_cancel_right1) 
  finally have b: "\<bar>w * x\<bar> \<le> 4 * (cell_bound * cell_bound)" .
  then have "\<bar>w * x\<bar> < overflow_threshold"
    using threshold_bound by linarith
  then show ?thesis
    using b by (simp add: to_float_Fin)
qed

lemma square_bound: "cell_bound \<le> cell_bound * cell_bound"
  using cell_bound_ge_1 by (simp add: mult_le_cancel_left1)

lemma term_small:
  assumes "\<bar>x\<bar> \<le> 2 * cell_bound + 2"
  shows "to_float x = Fin x"
proof -
  have "2 * cell_bound + 2 \<le> 4 * (cell_bound * cell_bound)"
    using cell_bound_ge_1 square_bound by linarith
  then have "\<bar>x\<bar> < overflow_threshold"
    using assms threshold_bound square_bound cell_bound_ge_1 by linarith
  then show ?thesis by (rule to_float_Fin)
qed

lemma cpm_term_bounded:
  fixes r :: "'a dyn_row_scheme"
  assumes "CPM r = Fin c" and "\<bar>c\<bar> \<le> cell_bound"
  shows "cpm_term r = Fin (1 - c / 15) \<and> \<bar>1 - c / 15\<bar> \<le> 2 * cell_bound + 2"
proof -
  have a: "\<bar>c / 15\<bar> \<le> 2 * cell_bound + 2" and b: "\<bar>1 - c / 15\<bar> \<le> 2 * cell_bound + 2"
    using assms(2) cell_bound_ge_1 by simp_all
  have "to_float (c / 15) = Fin (c / 15)" using a by (rule term_small)
  moreover have "to_float (1 + - (c / 15)) = Fin (1 - c / 15)"
    using b term_small [of "1 - c / 15"] by simp
  ultimately show ?thesis
    using b by (simp add: cpm_term_def assms(1) fsub_def)
qed

lemma viewability_term_bounded:
  fixes r :: "'a dyn_row_scheme"
  assumes "VIEWABILITY r = Fin v" and "\<bar>v\<bar> \<le> cell_bound"
  shows "viewability_term r = Fin ((v - 0.5) / 0.5)
    \<and> \<bar>(v - 0.5) / 0.5\<bar> \<le> 2 * cell_bound + 2"
proof -
  have a: "\<bar>v - 0.5\<bar> \<le> 2 * cell_bound + 2" and b: "\<bar>(v - 0.5) / 0.5\<bar> \<le> 2 * cell_bound + 2"
    using assms(2) cell_bound_ge_1 by simp_all
  have "to_float (v + - (1 / 2)) = Fin (v - 0.5)"
    using a term_small [of "v - 0.5"] by simp
  moreover have "to_float ((v - 0.5) / 0.5) = Fin ((v - 0.5) / 0.5)"
    using b by (rule term_small)
  ultimately show ?thesis
    using b by (simp add: viewability_term_def assms(1) fsub_def)
qed

lemma dispute_term_bounded:
  fixes r :: "'a dyn_row_scheme"
  assumes "DISPUTE_RATE r = Fin d" and "\<bar>d\<bar> \<le> cell_bound"
  shows "dispute_term r = Fin (1 - d) \<and> \<bar>1 - d\<bar> \<le> 2 * cell_bound + 2"
proof -
  have b: "\<bar>1 - d\<bar> \<le> 2 * cell_bound + 2"
    using assms(2) cell_bound_ge_1 by simp
  have "to_float (1 + - d) = Fin (1 - d)"
    using b term_small [of "1 - d"] by simp
  then show ?thesis
    using b by (simp add: dispute_term_def assms(1) fsub_def)
qed

lemma fadd_bounded:
  assumes "\<bar>x\<bar> \<le> k * (cell_bound * cell_bound)" and "\<bar>y\<bar> \<le> 4 * (cell_bound * cell_bound)"
    and "k \<le> 16"
  shows "fadd (Fin x) (Fin y) = Fin (x + y) \<and> \<bar>x + y\<bar> \<le> (k + 4) * (cell_bound * cell_bound)"
proof -
  have b: "\<bar>x + y\<bar> \<le> (k + 4) * (cell_bound * cell_bound)"
    using assms(1,2) by (simp add: algebra_simps)
  have "0 \<le> cell_bound * cell_bound"
    by simp
  then have "(k + 4) * (cell_bound * cell_bound) \<le> 20 * (cell_bound * cell_bound)"
    using assms(3) by (intro mult_right_mono) simp_all
  then have "\<bar>x + y\<bar> < overflow_threshold"
    using b threshold_bound by linarith
  then show ?thesis
    using b by (simp add: to_float_Fin)
qed

lemma weighted_sum_bounded:
  fixes r :: "'a dyn_row_scheme"
  assumes cells: "MATCH_RATE r = Fin m" "OVERLAP r = Fin ov" "CPM r = Fin c"
      "VIEWABILITY r = Fin v" "DISPUTE_RATE r = Fin d"
    and small: "\<bar>m\<bar> \<le> cell_bound" "\<bar>ov\<bar> \<le> cell_bound" "\<bar>c\<bar> \<le> cell_bound"
      "\<bar>v\<bar> \<le> cell_bound" "\<bar>d\<bar> \<le> cell_bound"
    and weights: "\<bar>weights ! 0\<bar> \<le> cell_bound" "\<bar>weights ! 1\<bar> \<le> cell_bound"
      "\<bar>weights ! 2\<bar> \<le> cell_bound" "\<bar>weights ! 3\<bar> \<le> cell_bound"
      "\<bar>weights ! 4\<bar> \<le> cell_bound"
  shows "weighted_sum weights r = Fin (exact_sum weights m ov c v d)"
proof -
  have m': "\<bar>m\<bar> \<le> 2 * cell_bound + 2" and ov': "\<bar>ov\<bar> \<le> 2 * cell_bound + 2"
    using small(1,2) cell_bound_ge_1 by simp_all
  note t0 = fmul_bounded [OF weights(1) m']
  note t1 = fmul_bounded [OF weights(2) ov']
  note c = cpm_term_bounded [OF cells(3) small(3)]
  note t2 = fmul_bounded [OF weights(3) conjunct2 [OF c]]
  note vw = viewability_term_bounded [OF cells(4) small(4)]
  note t3 = fmul_bounded [OF weights(4) conjunct2 [OF vw]]
  note dt = dispute_term_bounded [OF cells(5) small(5)]
  note t4 = fmul_bounded [OF weights(5) conjunct2 [OF dt]]
  have s1: "fadd (Fin (weights ! 0 * m)) (Fin (weights ! 1 * ov))
              = Fin (weights ! 0 * m + weights ! 1 * ov)
            \<and> \<bar>weights ! 0 * m + weights ! 1 * ov\<bar> \<le> (4 + 4) * (cell_bound * cell_bound)"
    using t0 t1 by (intro fadd_bounded) simp_all
  have s2: "fadd (Fin (weights ! 0 * m + weights ! 1 * ov)) (Fin (weights ! 2 * (1 - c / 15)))
              = Fin (weights ! 0 * m + weights ! 1 * ov + weights ! 2 * (1 - c / 15))
            \<and> \<bar>weights ! 0 * m + weights ! 1 * ov + weights ! 2 * (1 - c / 15)\<bar>
                \<le> (8 + 4) * (cell_bound * cell_bound)"
    using s1 t2 by (intro fadd_bounded) simp_all
  have s3: "fadd (Fin (weights ! 0 * m + weights ! 1 * ov + weights ! 2 * (1 - c / 15)))
                 (Fin (weights ! 3 * ((v - 0.5) / 0.5)))
              = Fin (weights ! 0 * m + weights ! 1 * ov + weights ! 2 * (1 - c / 15)
                     + weights ! 3 * ((v - 0.5) / 0.5))
            \<and> \<bar>weights ! 0 * m + weights ! 1 * ov + weights ! 2 * (1 - c / 15)
                     + weights ! 3 * ((v - 0.5) / 0.5)\<bar>
                \<le> (12 + 4) * (cell_bound * cell_bound)"
    using s2 t3 by (intro fadd_bounded) simp_all
  have s4: "fadd (Fin (weights ! 0 * m + weights ! 1 * ov + weights ! 2 * (1 - c / 15)
                     + weights ! 3 * ((v - 0.5) / 0.5)))
                 (Fin (weights ! 4 * (1 - d)))
              = Fin (weights ! 0 * m + weights ! 1 * ov + weights ! 2 * (1 - c / 15)
                     + weights ! 3 * ((v - 0.5) / 0.5) + weights ! 4 * (1 - d))
            \<and> \<bar>weights ! 0 * m + weights ! 1 * ov + weights ! 2 * (1 - c / 15)
                     + weights ! 3 * ((v - 0.5) / 0.5) + weights ! 4 * (1 - d)\<bar>
                \<le> (16 + 4) * (cell_bound * cell_bound)"
    using s3 t4 by (intro fadd_bounded) simp_all
  show ?thesis
    unfolding weighted_sum_def exact_sum_def cells
      conjunct1 [OF c] conjunct1 [OF vw] conjunct1 [OF dt]
      conjunct1 [OF t0] conjunct1 [OF t1] conjunct1 [OF t2] conjunct1 [OF t3] conjunct1 [OF t4]
      conjunct1 [OF s1] conjunct1 [OF s2] conjunct1 [OF s3] conjunct1 [OF s4]
    by (rule refl)
qed

lemma score_bounded:
  fixes r :: "'a dyn_row_scheme"
  assumes "weighted_sum weights r = Fin x"
  shows "health_score_dynamic weights r = Fin (max 0 (min 1 x) * 100)"
proof -
  have "\<bar>max 0 (min 1 x) * 100\<bar> \<le> 1000"
    by (simp add: max_def min_def)
  then have "to_float (max 0 (min 1 x) * 100) = Fin (max 0 (min 1 x) * 100)"
    by (rule to_float_small)
  then show ?thesis
    by (simp add: health_score_dynamic_def assms clip_def)
qed

lemma add_score_rows:
  assumes "r \<in> set (add_score weights dyn)"
  shows "\<exists>l \<in> set dyn. VENDOR_ID r = VENDOR_ID l \<and> MATCH_RATE r = MATCH_RATE l
    \<and> OVERLAP r = OVERLAP l \<and> DISPUTE_RATE r = DISPUTE_RATE l \<and> CPM r = CPM l
    \<and> VIEWABILITY r = VIEWABILITY l
    \<and> HEALTH_SCORE_DYNAMIC r = health_score_dynamic weights l"
  using assms by (auto simp add: add_score_def dyn_row.defs scored_row.defs)

text \<open>The score of a row depends on its five cells only.\<close>

lemma health_score_dynamic_cong:
  fixes r :: "'a dyn_row_scheme" and l :: "'b dyn_row_scheme"
  assumes "MATCH_RATE r = MATCH_RATE l" "OVERLAP r = OVERLAP l" "CPM r = CPM l"
    "VIEWABILITY r = VIEWABILITY l" "DISPUTE_RATE r = DISPUTE_RATE l"
  shows "weighted_sum weights r = weighted_sum weights l"
    and "health_score_dynamic weights r = health_score_dynamic weights l"
  using assms
  by (simp_all add: health_score_dynamic_def weighted_sum_def cpm_term_def
      viewability_term_def dispute_term_def)

lemma scored_row_cells:
  assumes "r \<in> set (add_score weights (dyn_table identity health finance delivery))"
  shows "MATCH_RATE r \<noteq> NaN \<and> OVERLAP r \<noteq> NaN \<and> CPM r \<noteq> NaN \<and> VIEWABILITY r \<noteq> NaN
    \<and> DISPUTE_RATE r \<noteq> NaN
    \<and> HEALTH_SCORE_DYNAMIC r = fmul (clip 0 1 (weighted_sum weights r)) (Fin 100)"
proof -
  from add_score_rows [OF assms] obtain l
    where l: "l \<in> set (dyn_table identity health finance delivery)"
      and same: "MATCH_RATE r = MATCH_RATE l" "OVERLAP r = OVERLAP l" "CPM r = CPM l"
        "VIEWABILITY r = VIEWABILITY l" "DISPUTE_RATE r = DISPUTE_RATE l"
      and score: "HEALTH_SCORE_DYNAMIC r = health_score_dynamic weights l"
    by blast
  have "HEALTH_SCORE_DYNAMIC r = health_score_dynamic weights r"
    using score health_score_dynamic_cong(2) [OF same] by simp
  then show ?thesis
    using dyn_table_rows [OF l] same fillna_not_NaN [of 0]
    by (simp add: health_score_dynamic_def)
qed

text \<open>
  C5, amended: for every row of the scored table, every weight list and all tables, no
  cell of the row is NaN and the score is the weighted sum of the five terms, clipped to
  \<open>[0, 1]\<close> as a whole and then multiplied by 100. The score is either NaN, which it is
  exactly when the weighted sum is NaN, or a number in \<open>[0, 100]\<close>. It is the number given
  by the formula, in \<open>[0, 100]\<close>, whenever the five cells are finite and they and the five
  weights have a magnitude of at most \<open>10^150\<close>, which covers the ranges of the data
  model.
\<close>

theorem health_score_nan_or_in_range:
  assumes "r \<in> set (add_score weights (dyn_table identity health finance delivery))"
  shows "MATCH_RATE r \<noteq> NaN \<and> OVERLAP r \<noteq> NaN \<and> CPM r \<noteq> NaN \<and> VIEWABILITY r \<noteq> NaN
    \<and> DISPUTE_RATE r \<noteq> NaN
    \<and> HEALTH_SCORE_DYNAMIC r = fmul (clip 0 1 (weighted_sum weights r)) (Fin 100)
    \<and> (HEALTH_SCORE_DYNAMIC r = NaN \<and> weighted_sum weights r = NaN
        \<or> (\<exists>s. HEALTH_SCORE_DYNAMIC r = Fin s \<and> 0 \<le> s \<and> s \<le> 100))
    \<and> (\<forall>m ov c v d.
          MATCH_RATE r = Fin m \<and> OVERLAP r = Fin ov \<and> CPM r = Fin c
          \<and> VIEWABILITY r = Fin v \<and> DISPUTE_RATE r = Fin d
          \<and> \<bar>m\<bar> \<le> 10 ^ 150 \<and> \<bar>ov\<bar> \<le> 10 ^ 150 \<and> \<bar>c\<bar> \<le> 10 ^ 150
          \<and> \<bar>v\<bar> \<le> 10 ^ 150 \<and> \<bar>d\<bar> \<le> 10 ^ 150
          \<and> \<bar>weights ! 0\<bar> \<le> 10 ^ 150 \<and> \<bar>weights ! 1\<bar> \<le> 10 ^ 150
          \<and> \<bar>weights ! 2\<bar> \<le> 10 ^ 150 \<and> \<bar>weights ! 3\<bar> \<le> 10 ^ 150
          \<and> \<bar>weights ! 4\<bar> \<le> 10 ^ 150
        \<longrightarrow> (\<exists>s. HEALTH_SCORE_DYNAMIC r = Fin s
               \<and> s = max 0 (min 1 (weights ! 0 * m + weights ! 1 * ov
                        + weights ! 2 * (1 - c / 15) + weights ! 3 * ((v - 0.5) / 0.5)
                        + weights ! 4 * (1 - d))) * 100
               \<and> 0 \<le> s \<and> s \<le> 100))"
proof -
  note cells = scored_row_cells [OF assms]
  have score: "HEALTH_SCORE_DYNAMIC r = health_score_dynamic weights r"
    using cells by (simp add: health_score_dynamic_def)
  have range: "HEALTH_SCORE_DYNAMIC r = NaN \<and> weighted_sum weights r = NaN
        \<or> (\<exists>s. HEALTH_SCORE_DYNAMIC r = Fin s \<and> 0 \<le> s \<and> s \<le> 100)"
    using score_NaN_or_range [of weights r] unfolding score by blast
  have exact: "\<exists>s. HEALTH_SCORE_DYNAMIC r = Fin s
               \<and> s = max 0 (min 1 (weights ! 0 * m + weights ! 1 * ov
                        + weights ! 2 * (1 - c / 15) + weights ! 3 * ((v - 0.5) / 0.5)
                        + weights ! 4 * (1 - d))) * 100
               \<and> 0 \<le> s \<and> s \<le> 100"
    if h: "MATCH_RATE r = Fin m \<and> OVERLAP r = Fin ov \<and> CPM r = Fin c
          \<and> VIEWABILITY r = Fin v \<and> DISPUTE_RATE r = Fin d
          \<and> \<bar>m\<bar> \<le> 10 ^ 150 \<and> \<bar>ov\<bar> \<le> 10 ^ 150 \<and> \<bar>c\<bar> \<le> 10 ^ 150
          \<and> \<bar>v\<bar> \<le> 10 ^ 150 \<and> \<bar>d\<bar> \<le> 10 ^ 150
          \<and> \<bar>weights ! 0\<bar> \<le> 10 ^ 150 \<and> \<bar>weights ! 1\<bar> \<le> 10 ^ 150
          \<and> \<bar>weights ! 2\<bar> \<le> 10 ^ 150 \<and> \<bar>weights ! 3\<bar> \<le> 10 ^ 150
          \<and> \<bar>weights ! 4\<bar> \<le> 10 ^ 150" for m ov c v d
  proof -
    have "weighted_sum weights r = Fin (exact_sum weights m ov c v d)"
      using h by (intro weighted_sum_bounded) (simp_all only: cell_bound_def)
    then have "HEALTH_SCORE_DYNAMIC r
        = Fin (max 0 (min 1 (exact_sum weights m ov c v d)) * 100)"
      unfolding score by (rule score_bounded)
    moreover have "0 \<le> max 0 (min 1 (exact_sum weights m ov c v d)) * 100"
      and "max 0 (min 1 (exact_sum weights m ov c v d)) * 100 \<le> 100"
      by (simp_all add: max_def min_def)
    ultimately show ?thesis
      unfolding exact_sum_def by blast
  qed
  show ?thesis
    using cells range exact by blast
qed

theorem health_score_nan_or_in_range_witness:
  "dyn_row.extend example_vendor (scored_row.fields (Fin (172 / 3)))
     \<in> set (add_score example_weights
              (dyn_table example_identity [''V1''] example_finance example_delivery))
   \<and> \<bar>0.8 :: real\<bar> \<le> 10 ^ 150 \<and> \<bar>0.5 :: real\<bar> \<le> 10 ^ 150 \<and> \<bar>10 :: real\<bar> \<le> 10 ^ 150
   \<and> \<bar>0.7 :: real\<bar> \<le> 10 ^ 150 \<and> \<bar>0.05 :: real\<bar> \<le> 10 ^ 150
   \<and> \<bar>example_weights ! 0\<bar> \<le> 10 ^ 150 \<and> \<bar>example_weights ! 1\<bar> \<le> 10 ^ 150
   \<and> \<bar>example_weights ! 2\<bar> \<le> 10 ^ 150 \<and> \<bar>example_weights ! 3\<bar> \<le> 10 ^ 150
   \<and> \<bar>example_weights ! 4\<bar> \<le> 10 ^ 150
   \<and> (\<exists>s. HEALTH_SCORE_DYNAMIC
              (dyn_row.extend example_vendor (scored_row.fields (Fin (172 / 3)))) = Fin s
          \<and> s = max 0 (min 1 (example_weights ! 0 * 0.8 + example_weights ! 1 * 0.5
                   + example_weights ! 2 * (1 - 10 / 15)
                   + example_weights ! 3 * ((0.7 - 0.5) / 0.5)
                   + example_weights ! 4 * (1 - 0.05))) * 100
          \<and> 0 \<le> s \<and> s \<le> 100)"
proof -
  let ?r = "dyn_row.extend example_vendor (scored_row.fields (Fin (172 / 3)))"
  have mem: "?r \<in> set (add_score example_weights
              (dyn_table example_identity [''V1''] example_finance example_delivery))"
    by (simp add: example_dyn add_score_def example_score)
  have cells: "MATCH_RATE ?r = Fin 0.8 \<and> OVERLAP ?r = Fin 0.5 \<and> CPM ?r = Fin 10
      \<and> VIEWABILITY ?r = Fin 0.7 \<and> DISPUTE_RATE ?r = Fin 0.05"
    by (simp add: example_vendor_def dyn_row.defs scored_row.defs)
  have small: "\<bar>0.8 :: real\<bar> \<le> 10 ^ 150 \<and> \<bar>0.5 :: real\<bar> \<le> 10 ^ 150
      \<and> \<bar>10 :: real\<bar> \<le> 10 ^ 150 \<and> \<bar>0.7 :: real\<bar> \<le> 10 ^ 150 \<and> \<bar>0.05 :: real\<bar> \<le> 10 ^ 150
      \<and> \<bar>example_weights ! 0\<bar> \<le> 10 ^ 150 \<and> \<bar>example_weights ! 1\<bar> \<le> 10 ^ 150
      \<and> \<bar>example_weights ! 2\<bar> \<le> 10 ^ 150 \<and> \<bar>example_weights ! 3\<bar> \<le> 10 ^ 150
      \<and> \<bar>example_weights ! 4\<bar> \<le> 10 ^ 150"
    by (simp add: example_weights_def)
  show ?thesis
    using mem cells small health_score_nan_or_in_range [OF mem] by blast
qed

text \<open>
  The score is not in \<open>[0, 100]\<close> for every record: with the CPM weight at 0, a vendor
  whose CPM is infinite has the product \<open>0 * (1 - inf)\<close> in its weighted sum, which is NaN,
  and NaN is what the clip and the factor 100 leave of it.
\<close>

theorem health_score_range_counterexample:
  "slider_weights 0.4 0.2 0 0.1 0.3 = Inr zero_cpm_weights
   \<and> map VENDOR_ID (add_score zero_cpm_weights
        (dyn_table example_identity [''V2'', ''V1''] example_finance infinite_cpm_delivery))
       = [''V2'', ''V1'']
   \<and> map CPM (add_score zero_cpm_weights
        (dyn_table example_identity [''V2'', ''V1''] example_finance infinite_cpm_delivery))
       = [Fin 0, PInf]
   \<and> map HEALTH_SCORE_DYNAMIC (add_score zero_cpm_weights
        (dyn_table example_identity [''V2'', ''V1''] example_finance infinite_cpm_delivery))
       = [Fin 20, NaN]
   \<and> \<not> (fle (Fin 0) (HEALTH_SCORE_DYNAMIC (add_score zero_cpm_weights
             (dyn_table example_identity [''V2'', ''V1''] example_finance
                infinite_cpm_delivery) ! 1))
        \<and> fle (HEALTH_SCORE_DYNAMIC (add_score zero_cpm_weights
             (dyn_table example_identity [''V2'', ''V1''] example_finance
                infinite_cpm_delivery) ! 1)) (Fin 100))"
proof -
  have w: "slider_weights 0.4 0.2 0 0.1 0.3 = Inr zero_cpm_weights"
    by (simp add: slider_weights_def normalize_weights_def zero_cpm_weights_def)
  have t: "add_score zero_cpm_weights
        (dyn_table example_identity [''V2'', ''V1''] example_finance infinite_cpm_delivery)
      = [dyn_row.extend absent_vendor (scored_row.fields (Fin 20)),
         dyn_row.extend infinite_cpm_vendor (scored_row.fields NaN)]"
    by (simp add: infinite_dyn_two add_score_def infinite_score absent_score_zero_cpm)
  show ?thesis
    unfolding t using w
    by (simp add: dyn_row.defs scored_row.defs absent_vendor_def infinite_cpm_vendor_def)
qed

subsection \<open>The ranking\<close>

lemma set_sort_values_desc: "set (sort_values_desc rows) = set rows"
  by (simp add: sort_values_desc_def)

lemma mset_sort_values_desc: "mset (sort_values_desc rows) = mset rows"
  by (simp add: sort_values_desc_def)

lemma sort_values_desc_sorted:
  "sorted_wrt (\<lambda>a b. sort_rank (HEALTH_SCORE_DYNAMIC b) \<le> sort_rank (HEALTH_SCORE_DYNAMIC a))
     (sort_values_desc rows)"
proof -
  let ?k = "\<lambda>r. sort_rank (HEALTH_SCORE_DYNAMIC r)"
  have "sorted (map ?k (sort_key ?k (rev rows)))"
    by (rule sorted_sort_key)
  then have "sorted_wrt (\<lambda>a b. ?k a \<le> ?k b) (sort_key ?k (rev rows))"
    by (simp add: sorted_wrt_map)
  then show ?thesis
    by (simp add: sort_values_desc_def sorted_wrt_rev)
qed

lemma sort_rank_fle: "sort_rank b \<le> sort_rank a \<Longrightarrow> b \<noteq> NaN \<Longrightarrow> fle b a"
  by (cases a; cases b) simp_all

lemma sort_rank_NaN: "sort_rank b \<le> sort_rank NaN \<Longrightarrow> b = NaN"
  by (cases b) simp_all

lemma sort_rank_inj: "sort_rank a = sort_rank b \<Longrightarrow> a = b"
  by (cases a; cases b) simp_all

text \<open>
  Whatever a descending sort does with rows of equal score, the scores it returns are the
  same, position by position: any reordering of the rows that is descending in the rank
  of the score has the score column of \<open>sort_values_desc\<close>.
\<close>

lemma descending_scores_unique:
  assumes "mset ys = mset rows"
    and "sorted_wrt (\<lambda>a b. sort_rank (HEALTH_SCORE_DYNAMIC b)
                            \<le> sort_rank (HEALTH_SCORE_DYNAMIC a)) ys"
  shows "map HEALTH_SCORE_DYNAMIC ys = map HEALTH_SCORE_DYNAMIC (sort_values_desc rows)"
proof -
  let ?f = "\<lambda>r. sort_rank (HEALTH_SCORE_DYNAMIC r)"
  have desc: "sorted (rev (map ?f zs))"
    if "sorted_wrt (\<lambda>a b. ?f b \<le> ?f a) zs" for zs :: "scored_row list"
    using that by (simp add: sorted_wrt_map sorted_wrt_rev flip: rev_map)
  have same: "mset (rev (map ?f zs)) = mset (map ?f rows)"
    if "mset zs = mset rows" for zs :: "scored_row list"
    using that by (metis mset_map mset_rev)
  have "sort (map ?f rows) = rev (map ?f ys)"
    using same [OF assms(1)] desc [OF assms(2)] by (rule properties_for_sort)
  moreover have "sort (map ?f rows) = rev (map ?f (sort_values_desc rows))"
    using same [OF mset_sort_values_desc] desc [OF sort_values_desc_sorted]
    by (rule properties_for_sort)
  ultimately have "rev (map ?f ys) = rev (map ?f (sort_values_desc rows))"
    by simp
  then have "map sort_rank (map HEALTH_SCORE_DYNAMIC ys)
      = map sort_rank (map HEALTH_SCORE_DYNAMIC (sort_values_desc rows))"
    by (simp add: o_def)
  moreover have "inj sort_rank"
    by (rule injI) (rule sort_rank_inj)
  ultimately show ?thesis
    by (simp only: inj_map_eq_map)
qed

lemma ranked_subset:
  "set (ranked sel_vendors weights identity health finance delivery)
     \<subseteq> set (add_score weights (dyn_table identity health finance delivery))"
  by (auto simp add: ranked_def set_sort_values_desc)

lemma example_ranked:
  "ranked [''V1'', ''V2''] example_weights example_identity [''V2'', ''V1''] example_finance
     example_delivery
     = [dyn_row.extend example_vendor (scored_row.fields (Fin (172 / 3))),
        dyn_row.extend absent_vendor (scored_row.fields (Fin 15))]"
  by (simp add: ranked_def example_dyn_two add_score_def example_score absent_score isin_def
      sort_values_desc_def dyn_row.defs scored_row.defs vendor_ids)

lemma infinite_ranked:
  "ranked [''V1'', ''V2''] zero_cpm_weights example_identity [''V2'', ''V1''] example_finance
     infinite_cpm_delivery
     = [dyn_row.extend absent_vendor (scored_row.fields (Fin 20)),
        dyn_row.extend infinite_cpm_vendor (scored_row.fields NaN)]"
  by (simp add: ranked_def infinite_dyn_two add_score_def infinite_score
      absent_score_zero_cpm isin_def sort_values_desc_def dyn_row.defs scored_row.defs
      vendor_ids)

lemma example_ranked_one:
  "ranked [''V1''] example_weights example_identity [''V1''] example_finance example_delivery
     = [dyn_row.extend example_vendor (scored_row.fields (Fin (172 / 3)))]"
  by (simp add: ranked_def example_dyn add_score_def example_score isin_def
      sort_values_desc_def dyn_row.defs scored_row.defs vendor_ids)

text \<open>
  C4: for every selection, every weight list and all tables, the vendor ids of the ranked
  output are exactly the selected vendors that occur in Health.
\<close>

theorem ranked_vendor_set:
  "set (map VENDOR_ID (ranked sel_vendors weights identity health finance delivery))
     = set sel_vendors \<inter> set health"
proof -
  let ?dyn = "dyn_table identity health finance delivery"
  have "set (map VENDOR_ID (ranked sel_vendors weights identity health finance delivery))
          = VENDOR_ID ` {r \<in> set (add_score weights ?dyn). VENDOR_ID r \<in> set sel_vendors}"
    by (simp add: ranked_def set_sort_values_desc isin_def)
  also have "\<dots> = {v \<in> set (map VENDOR_ID (add_score weights ?dyn)). v \<in> set sel_vendors}"
    by auto
  also have "map VENDOR_ID (add_score weights ?dyn) = map VENDOR_ID ?dyn"
    by (simp add: add_score_def dyn_row.defs o_def)
  finally show ?thesis
    by (auto simp only: dyn_table_vendors)
qed

theorem ranked_vendor_set_witness:
  "set (map VENDOR_ID (ranked [''V1'', ''V3''] example_weights example_identity
          [''V2'', ''V1''] example_finance example_delivery)) = {''V1''}"
  using ranked_vendor_set [of "[''V1'', ''V3'']" example_weights example_identity
      "[''V2'', ''V1'']" example_finance example_delivery]
  by simp

text \<open>
  C7, amended: in the ranked output, for a row that comes before another: if the score of
  the later row is a number, then so is the score of the earlier row and it is greater
  than or equal to that of the later row; and if the score of the earlier row is NaN, so
  is the score of the later row. So the rows with a number as score come first, in
  descending order, and the rows with a NaN score come last.
\<close>

theorem ranked_descending_nan_last:
  assumes "i < j"
    and "j < length (ranked sel_vendors weights identity health finance delivery)"
  shows "(HEALTH_SCORE_DYNAMIC (ranked sel_vendors weights identity health finance delivery ! j)
            \<noteq> NaN
          \<longrightarrow> fle (HEALTH_SCORE_DYNAMIC
                     (ranked sel_vendors weights identity health finance delivery ! j))
                  (HEALTH_SCORE_DYNAMIC
                     (ranked sel_vendors weights identity health finance delivery ! i)))
    \<and> (HEALTH_SCORE_DYNAMIC (ranked sel_vendors weights identity health finance delivery ! i)
            = NaN
          \<longrightarrow> HEALTH_SCORE_DYNAMIC
                (ranked sel_vendors weights identity health finance delivery ! j) = NaN)"
proof -
  let ?out = "ranked sel_vendors weights identity health finance delivery"
  have "sorted_wrt (\<lambda>a b. sort_rank (HEALTH_SCORE_DYNAMIC b)
                            \<le> sort_rank (HEALTH_SCORE_DYNAMIC a)) ?out"
    unfolding ranked_def by (rule sort_values_desc_sorted)
  then have le: "sort_rank (HEALTH_SCORE_DYNAMIC (?out ! j))
                   \<le> sort_rank (HEALTH_SCORE_DYNAMIC (?out ! i))"
    using assms by (rule sorted_wrt_nth_less)
  show ?thesis
    using le sort_rank_fle sort_rank_NaN by metis
qed

theorem ranked_descending_nan_last_witness:
  "(0::nat) < 1
   \<and> 1 < length (ranked [''V1'', ''V2''] example_weights example_identity [''V2'', ''V1'']
                   example_finance example_delivery)
   \<and> map HEALTH_SCORE_DYNAMIC (ranked [''V1'', ''V2''] example_weights example_identity
        [''V2'', ''V1''] example_finance example_delivery) = [Fin (172 / 3), Fin 15]
   \<and> HEALTH_SCORE_DYNAMIC (ranked [''V1'', ''V2''] example_weights example_identity
        [''V2'', ''V1''] example_finance example_delivery ! 1) \<noteq> NaN
   \<and> fle (HEALTH_SCORE_DYNAMIC (ranked [''V1'', ''V2''] example_weights example_identity
             [''V2'', ''V1''] example_finance example_delivery ! 1))
         (HEALTH_SCORE_DYNAMIC (ranked [''V1'', ''V2''] example_weights example_identity
             [''V2'', ''V1''] example_finance example_delivery ! 0))"
proof -
  have l: "1 < length (ranked [''V1'', ''V2''] example_weights example_identity [''V2'', ''V1'']
                   example_finance example_delivery)"
    by (simp add: example_ranked)
  have s: "map HEALTH_SCORE_DYNAMIC (ranked [''V1'', ''V2''] example_weights example_identity
        [''V2'', ''V1''] example_finance example_delivery) = [Fin (172 / 3), Fin 15]"
    by (simp add: example_ranked dyn_row.defs scored_row.defs)
  have n: "HEALTH_SCORE_DYNAMIC (ranked [''V1'', ''V2''] example_weights example_identity
        [''V2'', ''V1''] example_finance example_delivery ! 1) \<noteq> NaN"
    by (simp add: example_ranked dyn_row.defs scored_row.defs)
  show ?thesis
    using l s n ranked_descending_nan_last [OF zero_less_one l] by blast
qed

text \<open>
  The order is not descending throughout: with the CPM weight at 0 and an infinite CPM for
  \<open>V1\<close>, the ranking is \<open>V2\<close> with score 20 and then \<open>V1\<close> with score NaN, and
  \<open>20 >= NaN\<close> is false.
\<close>

theorem ranked_descending_counterexample:
  "(0::nat) < 1
   \<and> 1 < length (ranked [''V1'', ''V2''] zero_cpm_weights example_identity [''V2'', ''V1'']
                   example_finance infinite_cpm_delivery)
   \<and> map VENDOR_ID (ranked [''V1'', ''V2''] zero_cpm_weights example_identity
        [''V2'', ''V1''] example_finance infinite_cpm_delivery) = [''V2'', ''V1'']
   \<and> map HEALTH_SCORE_DYNAMIC (ranked [''V1'', ''V2''] zero_cpm_weights example_identity
        [''V2'', ''V1''] example_finance infinite_cpm_delivery) = [Fin 20, NaN]
   \<and> \<not> fle (HEALTH_SCORE_DYNAMIC (ranked [''V1'', ''V2''] zero_cpm_weights example_identity
             [''V2'', ''V1''] example_finance infinite_cpm_delivery ! 1))
           (HEALTH_SCORE_DYNAMIC (ranked [''V1'', ''V2''] zero_cpm_weights example_identity
             [''V2'', ''V1''] example_finance infinite_cpm_delivery ! 0))"
  unfolding infinite_ranked
  by (simp add: dyn_row.defs scored_row.defs vendor_ids)

subsection \<open>The worked example\<close>

text \<open>
  C9: the default weights normalise to themselves, and for the vendor with MatchRate 0.8,
  Overlap 0.5, CPM 10, Viewability 0.7 and DisputeRate 0.05 the weighted sum is
  \<open>0.30 * 0.8 + 0.15 * 0.5 + 0.25 * (1 - 10/15) + 0.20 * ((0.7 - 0.5)/0.5) + 0.10 * (1 - 0.05)\<close>
  and the score is \<open>172/3\<close>, within 0.05 of 57.3; the whole run on the example tables gives
  that vendor this score.
\<close>

theorem example_vendor_score:
  "slider_weights 0.30 0.15 0.25 0.20 0.10 = Inr example_weights
   \<and> weighted_sum example_weights example_vendor
       = Fin (0.30 * 0.8 + 0.15 * 0.5 + 0.25 * (1 - 10 / 15) + 0.20 * ((0.7 - 0.5) / 0.5)
               + 0.10 * (1 - 0.05))
   \<and> health_score_dynamic example_weights example_vendor = Fin (172 / 3)
   \<and> \<bar>172 / 3 - 57.3\<bar> < (0.05::real)
   \<and> pipeline 0.30 0.15 0.25 0.20 0.10 [''V1''] example_identity [''V1''] example_finance
        example_delivery
       = Inr [dyn_row.extend example_vendor (scored_row.fields (Fin (172 / 3)))]"
proof (intro conjI)
  show w: "slider_weights 0.30 0.15 0.25 0.20 0.10 = Inr example_weights"
    by (simp add: slider_weights_def normalize_weights_def example_weights_def)
  show "weighted_sum example_weights example_vendor
       = Fin (0.30 * 0.8 + 0.15 * 0.5 + 0.25 * (1 - 10 / 15) + 0.20 * ((0.7 - 0.5) / 0.5)
               + 0.10 * (1 - 0.05))"
    by (simp add: weighted_sum_def example_weights_def example_vendor_def cpm_term_def
        viewability_term_def dispute_term_def cell_eval)
  show "health_score_dynamic example_weights example_vendor = Fin (172 / 3)"
    by (rule example_score)
  show "\<bar>172 / 3 - 57.3\<bar> < (0.05::real)"
    by simp
  show "pipeline 0.30 0.15 0.25 0.20 0.10 [''V1''] example_identity [''V1''] example_finance
        example_delivery
       = Inr [dyn_row.extend example_vendor (scored_row.fields (Fin (172 / 3)))]"
    unfolding pipeline_def w by (simp add: example_ranked_one)
qed

subsection \<open>Vendors without delivery or finance rows\<close>

text \<open>
  C8: every vendor of Health has a row in \<open>dyn\<close>. In each row of a vendor with no
  Delivery row the CPM is 0 and the CPM term is 1; in each row of a vendor with no
  Finance row the dispute rate is 0 and the dispute term is 1. Both terms are at most 1
  for every metric that is not negative, so 1 is the largest benefit.
\<close>

theorem missing_cpm_dispute_default:
  assumes "v \<in> set health"
  shows "(\<exists>r \<in> set (dyn_table identity health finance delivery). VENDOR_ID r = v)
    \<and> (\<forall>r \<in> set (dyn_table identity health finance delivery). VENDOR_ID r = v \<longrightarrow>
          (v \<notin> set (map d_VENDOR_ID delivery) \<longrightarrow> CPM r = Fin 0 \<and> cpm_term r = Fin 1)
        \<and> (v \<notin> set (map f_VENDOR_ID finance) \<longrightarrow>
              DISPUTE_RATE r = Fin 0 \<and> dispute_term r = Fin 1))
    \<and> (\<forall>r :: dyn_row. fle (Fin 0) (CPM r) \<longrightarrow> fle (cpm_term r) (Fin 1))
    \<and> (\<forall>r :: dyn_row. fle (Fin 0) (DISPUTE_RATE r) \<longrightarrow> fle (dispute_term r) (Fin 1))
    \<and> (\<forall>r :: dyn_row. \<forall>x. CPM r = Fin x \<and> 0 \<le> x \<and> x \<le> 10 ^ 150 \<longrightarrow>
          (\<exists>t. cpm_term r = Fin t \<and> t \<le> 1))
    \<and> (\<forall>r :: dyn_row. \<forall>x. DISPUTE_RATE r = Fin x \<and> 0 \<le> x \<and> x \<le> 10 ^ 150 \<longrightarrow>
          (\<exists>t. dispute_term r = Fin t \<and> t \<le> 1))"
proof (intro conjI ballI impI allI)
  show "\<exists>r \<in> set (dyn_table identity health finance delivery). VENDOR_ID r = v"
    using assms by (rule dyn_table_vendor_row)
next
  fix r
  assume r: "r \<in> set (dyn_table identity health finance delivery)" and v: "VENDOR_ID r = v"
    and absent: "v \<notin> set (map d_VENDOR_ID delivery)"
  have "CPM r = fillna 0 (group_mean d_VENDOR_ID d_CPM delivery v)"
    using dyn_table_rows [OF r] v by simp
  then show c: "CPM r = Fin 0"
    by (simp only: group_mean_absent [OF absent] fillna_simps)
  show "cpm_term r = Fin 1"
    by (simp add: cpm_term_def c fsub_def to_float_small)
next
  fix r
  assume r: "r \<in> set (dyn_table identity health finance delivery)" and v: "VENDOR_ID r = v"
    and absent: "v \<notin> set (map f_VENDOR_ID finance)"
  have "DISPUTE_RATE r = fillna 0 (group_mean f_VENDOR_ID f_DISPUTE_RATE finance v)"
    using dyn_table_rows [OF r] v by simp
  then show d: "DISPUTE_RATE r = Fin 0"
    by (simp only: group_mean_absent [OF absent] fillna_simps)
  show "dispute_term r = Fin 1"
    by (simp add: dispute_term_def d fsub_def to_float_small)
next
  fix r :: dyn_row
  assume "fle (Fin 0) (CPM r)"
  then show "fle (cpm_term r) (Fin 1)" by (rule cpm_term_le_1)
next
  fix r :: dyn_row
  assume "fle (Fin 0) (DISPUTE_RATE r)"
  then show "fle (dispute_term r) (Fin 1)" by (rule dispute_term_le_1)
next
  fix r :: dyn_row and x :: real
  assume h: "CPM r = Fin x \<and> 0 \<le> x \<and> x \<le> 10 ^ 150"
  then have "\<bar>x\<bar> \<le> cell_bound" by (simp only: cell_bound_def) simp
  with h have "cpm_term r = Fin (1 - x / 15)"
    using cpm_term_bounded [of r x] by blast
  moreover have "1 - x / 15 \<le> 1" using h by simp
  ultimately show "\<exists>t. cpm_term r = Fin t \<and> t \<le> 1" by blast
next
  fix r :: dyn_row and x :: real
  assume h: "DISPUTE_RATE r = Fin x \<and> 0 \<le> x \<and> x \<le> 10 ^ 150"
  then have "\<bar>x\<bar> \<le> cell_bound" by (simp only: cell_bound_def) simp
  with h have "dispute_term r = Fin (1 - x)"
    using dispute_term_bounded [of r x] by blast
  moreover have "1 - x \<le> 1" using h by simp
  ultimately show "\<exists>t. dispute_term r = Fin t \<and> t \<le> 1" by blast
qed

theorem missing_cpm_dispute_default_witness:
  "''V2'' \<in> set [''V1'', ''V2'']
   \<and> ''V2'' \<notin> set (map d_VENDOR_ID example_delivery)
   \<and> ''V2'' \<notin> set (map f_VENDOR_ID example_finance)
   \<and> (\<exists>r \<in> set (dyn_table example_identity [''V1'', ''V2''] example_finance example_delivery).
         VENDOR_ID r = ''V2'' \<and> CPM r = Fin 0 \<and> cpm_term r = Fin 1
       \<and> DISPUTE_RATE r = Fin 0 \<and> dispute_term r = Fin 1)"
proof -
  have h: "''V2'' \<in> set [''V1'', ''V2'']" by simp
  have d: "''V2'' \<notin> set (map d_VENDOR_ID example_delivery)"
    by (simp add: example_delivery_def)
  have f: "''V2'' \<notin> set (map f_VENDOR_ID example_finance)"
    by (simp add: example_finance_def)
  show ?thesis
    using h d f
      missing_cpm_dispute_default [OF h, of example_identity example_finance example_delivery]
    by blast
qed

text \<open>
  C10: in each row of a Health vendor with no Delivery row the viewability is 0 and the
  viewability term is \<open>(0 - 0.5) / 0.5 = -1\<close>, while the CPM term of the same row is 1.
  For every viewability that is not negative the term is at least \<open>-1\<close>, so \<open>-1\<close> is the
  largest penalty of that term.
\<close>

theorem missing_viewability_penalty:
  assumes "v \<in> set health" and "v \<notin> set (map d_VENDOR_ID delivery)"
  shows "(\<exists>r \<in> set (dyn_table identity health finance delivery). VENDOR_ID r = v)
    \<and> (\<forall>r \<in> set (dyn_table identity health finance delivery). VENDOR_ID r = v \<longrightarrow>
          VIEWABILITY r = Fin 0 \<and> viewability_term r = Fin (- 1) \<and> cpm_term r = Fin 1)
    \<and> (\<forall>r :: dyn_row. fle (Fin 0) (VIEWABILITY r) \<longrightarrow> fle (Fin (- 1)) (viewability_term r))
    \<and> (\<forall>r :: dyn_row. \<forall>x. VIEWABILITY r = Fin x \<and> 0 \<le> x \<and> x \<le> 10 ^ 150 \<longrightarrow>
          (\<exists>t. viewability_term r = Fin t \<and> - 1 \<le> t))"
proof (intro conjI ballI impI allI)
  show "\<exists>r \<in> set (dyn_table identity health finance delivery). VENDOR_ID r = v"
    using assms(1) by (rule dyn_table_vendor_row)
next
  fix r
  assume r: "r \<in> set (dyn_table identity health finance delivery)" and v: "VENDOR_ID r = v"
  have "VIEWABILITY r = fillna 0 (group_mean d_VENDOR_ID d_VIEWABILITY delivery v)"
    using dyn_table_rows [OF r] v by simp
  then show w: "VIEWABILITY r = Fin 0"
    by (simp only: group_mean_absent [OF assms(2)] fillna_simps)
  show "viewability_term r = Fin (- 1)"
    by (simp add: viewability_term_def w fsub_def to_float_small)
  have "CPM r = fillna 0 (group_mean d_VENDOR_ID d_CPM delivery v)"
    using dyn_table_rows [OF r] v by simp
  then have c: "CPM r = Fin 0"
    by (simp only: group_mean_absent [OF assms(2)] fillna_simps)
  show "cpm_term r = Fin 1"
    by (simp add: cpm_term_def c fsub_def to_float_small)
next
  fix r :: dyn_row
  assume "fle (Fin 0) (VIEWABILITY r)"
  then show "fle (Fin (- 1)) (viewability_term r)" by (rule viewability_term_ge_m1)
next
  fix r :: dyn_row and x :: real
  assume h: "VIEWABILITY r = Fin x \<and> 0 \<le> x \<and> x \<le> 10 ^ 150"
  then have "\<bar>x\<bar> \<le> cell_bound" by (simp only: cell_bound_def) simp
  with h have "viewability_term r = Fin ((x - 0.5) / 0.5)"
    using viewability_term_bounded [of r x] by blast
  moreover have "- 1 \<le> (x - 0.5) / 0.5" using h by simp
  ultimately show "\<exists>t. viewability_term r = Fin t \<and> - 1 \<le> t" by blast
qed

theorem missing_viewability_penalty_witness:
  "''V2'' \<in> set [''V1'', ''V2'']
   \<and> ''V2'' \<notin> set (map d_VENDOR_ID example_delivery)
   \<and> (\<exists>r \<in> set (dyn_table example_identity [''V1'', ''V2''] example_finance example_delivery).
         VENDOR_ID r = ''V2'' \<and> VIEWABILITY r = Fin 0 \<and> viewability_term r = Fin (- 1)
       \<and> cpm_term r = Fin 1)"
proof -
  have h: "''V2'' \<in> set [''V1'', ''V2'']" by simp
  have d: "''V2'' \<notin> set (map d_VENDOR_ID example_delivery)"
    by (simp add: example_delivery_def)
  show ?thesis
    using h d
      missing_viewability_penalty [OF h d, of example_identity example_finance]
    by blast
qed

subsection \<open>The finance-variance table\<close>

text \<open>
  A left row whose key no right row has comes out of a left merge with nothing on the
  right. For the finance table: a Finance row without a Budgets row of its month and
  vendor has a NaN budget and a NaN variance, whatever else the tables hold.
\<close>

lemma merge_left_unmatched:
  assumes "(l, m) \<in> set (merge_left lkey rkey left right)"
    and "lkey l \<notin> set (map rkey right)"
  shows "m = None"
proof -
  have "filter (\<lambda>r. rkey r = lkey l) right = []"
    using assms(2) by (force simp add: filter_empty_conv)
  moreover from assms(1) obtain l' where "l' \<in> set left"
    and "(l, m) \<in> set (case filter (\<lambda>r. rkey r = lkey l') right of
                          [] \<Rightarrow> [(l', None)] | ms \<Rightarrow> map (\<lambda>r. (l', Some r)) ms)"
    by (auto simp add: merge_left_def)
  moreover from this have "l' = l"
    by (auto split: list.splits)
  ultimately show ?thesis by simp
qed

lemma finance_summary_unmatched:
  assumes "r \<in> set (finance_summary finance budgets)"
    and "(f_MONTH r, f_VENDOR_ID r) \<notin> set (map (\<lambda>b. (b_MONTH b, b_VENDOR_ID b)) budgets)"
  shows "BUDGET_ALLOCATED_USD r = NaN \<and> VARIANCE_USD r = NaN"
proof -
  from assms(1) obtain f b
    where fb: "(f, b) \<in> set (merge_left (\<lambda>f. (f_MONTH f, f_VENDOR_ID f))
                                (\<lambda>b. (b_MONTH b, b_VENDOR_ID b)) finance budgets)"
      and r: "r = finance_row.extend f (finance_summary_row.fields
                    (joined b b_BUDGET_ALLOCATED_USD)
                    (fsub (f_INVOICED_USD f) (joined b b_BUDGET_ALLOCATED_USD)))"
    by (auto simp add: finance_summary_def Let_def)
  have "f_MONTH r = f_MONTH f" "f_VENDOR_ID r = f_VENDOR_ID f"
    by (simp_all add: r finance_row.defs)
  with assms(2) have "b = None"
    using merge_left_unmatched [OF fb] by simp
  then show ?thesis
    by (simp add: r finance_row.defs finance_summary_row.defs joined_simps fsub_NaN)
qed

text \<open>With a budget of 1000 for the row's own month the variance is \<open>1200 - 1000\<close>.\<close>

lemma finance_matched:
  "map VARIANCE_USD
     (finance_summary example_finance
        [\<lparr>b_MONTH = ''2024-01'', b_VENDOR_ID = ''V1'', b_BUDGET_ALLOCATED_USD = Fin 1000\<rparr>])
     = [Fin 200]"
  by (simp add: finance_summary_def merge_left_def example_finance_def
      finance_row.defs finance_summary_row.defs joined_def fsub_def to_float_small)

text \<open>
  C2, as the code behaves: a Finance row of January with only a February budget for its
  vendor has no matching Budgets row. Its budget cell is NaN, not 0, and its
  \<open>VARIANCE_USD\<close> is \<open>1200 - NaN = NaN\<close>, not the invoiced 1200: nothing fills the cells
  this merge leaves empty.
\<close>

theorem unmatched_budget_variance_missing:
  "finance_summary example_finance example_budgets =
     [\<lparr>f_MONTH = ''2024-01'', f_VENDOR_ID = ''V1'', f_INVOICED_USD = Fin 1200,
       f_DISPUTE_RATE = Fin 0.05, BUDGET_ALLOCATED_USD = NaN, VARIANCE_USD = NaN\<rparr>]"
  by (simp add: finance_summary_def merge_left_def example_finance_def example_budgets_def
      finance_row.defs finance_summary_row.defs joined_def fsub_NaN)

end
